theory Spec2Isabelle
  imports Main
begin

section \<open>Python values\<close>

text \<open>
  The configuration module of Solaar (\<^verbatim>\<open>lib/solaar/configuration.py\<close>) works on what
  \<^verbatim>\<open>yaml.safe_load\<close> and \<^verbatim>\<open>json.load\<close> return: \<^verbatim>\<open>None\<close>, booleans, integers, strings,
  lists and dictionaries. A dictionary is an association list in insertion order, as a
  Python \<^verbatim>\<open>dict\<close> iterates. \<open>VEntry\<close> is an instance of the class \<^verbatim>\<open>_DeviceEntry\<close>, the
  \<^verbatim>\<open>dict\<close> subclass of the module. Floating point numbers are left out. A loaded document
  is a tree: no two places of it share one object. A character of a string is a code point
  below 256.

  A function keeps its name without the leading underscores: \<open>parse_config\<close> is
  \<^verbatim>\<open>_parse_config\<close>, \<open>load\<close> is \<^verbatim>\<open>_load\<close>, \<open>setitem\<close> is \<^verbatim>\<open>_DeviceEntry.__setitem__\<close>. An
  exception is a value \<open>Inl e\<close>; log messages are left out.
\<close>

datatype pyval =
    VNone
  | VBool bool
  | VInt int
  | VStr string
  | VList "pyval list"
  | VDict "(pyval \<times> pyval) list"
  | VEntry "(pyval \<times> pyval) list"

type_synonym pydict = "(pyval \<times> pyval) list"

datatype error =
    AttributeError | TypeError | ValueError | KeyError | IndexError | AssertionError

text \<open>Truth value testing, \<^verbatim>\<open>bool(v)\<close>.\<close>

fun truthy :: "pyval \<Rightarrow> bool" where
  "truthy VNone = False"
| "truthy (VBool b) = b"
| "truthy (VInt i) = (i \<noteq> 0)"
| "truthy (VStr s) = (s \<noteq> [])"
| "truthy (VList l) = (l \<noteq> [])"
| "truthy (VDict d) = (d \<noteq> [])"
| "truthy (VEntry d) = (d \<noteq> [])"

text \<open>\<^verbatim>\<open>isinstance(v, dict)\<close>, \<^verbatim>\<open>isinstance(v, _DeviceEntry)\<close>, \<^verbatim>\<open>isinstance(v, str)\<close> and
  \<^verbatim>\<open>isinstance(v, int)\<close> (\<^verbatim>\<open>bool\<close> is a subclass of \<^verbatim>\<open>int\<close>).\<close>

fun is_dict :: "pyval \<Rightarrow> bool" where
  "is_dict (VDict d) = True"
| "is_dict (VEntry d) = True"
| "is_dict v = False"

fun is_DeviceEntry :: "pyval \<Rightarrow> bool" where
  "is_DeviceEntry (VEntry d) = True"
| "is_DeviceEntry v = False"

fun is_str :: "pyval \<Rightarrow> bool" where
  "is_str (VStr s) = True"
| "is_str v = False"

fun is_int :: "pyval \<Rightarrow> bool" where
  "is_int (VInt i) = True"
| "is_int (VBool b) = True"
| "is_int v = False"

text \<open>The items of a dictionary object.\<close>

fun items :: "pyval \<Rightarrow> pydict" where
  "items (VDict d) = d"
| "items (VEntry d) = d"
| "items v = []"

subsection \<open>Dictionaries\<close>

text \<open>
  Two keys are the same key when they are equal and hash alike: \<^verbatim>\<open>True\<close> and \<^verbatim>\<open>1\<close> are one
  key, \<^verbatim>\<open>False\<close> and \<^verbatim>\<open>0\<close> are one key.
\<close>

fun key_norm :: "pyval \<Rightarrow> pyval" where
  "key_norm (VBool b) = VInt (if b then 1 else 0)"
| "key_norm v = v"

definition key_eq :: "pyval \<Rightarrow> pyval \<Rightarrow> bool" where
  "key_eq a b = (key_norm a = key_norm b)"

fun dict_lookup :: "pydict \<Rightarrow> pyval \<Rightarrow> pyval option" where
  "dict_lookup [] k = None"
| "dict_lookup ((k', v) # d) k = (if key_eq k' k then Some v else dict_lookup d k)"

text \<open>\<^verbatim>\<open>d.get(k)\<close>: \<^verbatim>\<open>None\<close> for a missing key.\<close>

definition dict_get :: "pydict \<Rightarrow> pyval \<Rightarrow> pyval" where
  "dict_get d k = (case dict_lookup d k of None \<Rightarrow> VNone | Some v \<Rightarrow> v)"

text \<open>\<^verbatim>\<open>k in d\<close>.\<close>

definition dict_has :: "pydict \<Rightarrow> pyval \<Rightarrow> bool" where
  "dict_has d k = (dict_lookup d k \<noteq> None)"

text \<open>\<^verbatim>\<open>d[k] = v\<close>: a key that is present keeps its place (and its key object), a new key
  goes to the end.\<close>

fun dict_set :: "pydict \<Rightarrow> pyval \<Rightarrow> pyval \<Rightarrow> pydict" where
  "dict_set [] k v = [(k, v)]"
| "dict_set ((k', v') # d) k v =
     (if key_eq k' k then (k', v) # d else (k', v') # dict_set d k v)"

text \<open>\<^verbatim>\<open>d.pop(k, None)\<close>, the popped value dropped.\<close>

fun dict_pop :: "pydict \<Rightarrow> pyval \<Rightarrow> pydict" where
  "dict_pop [] k = []"
| "dict_pop ((k', v') # d) k = (if key_eq k' k then d else (k', v') # dict_pop d k)"

subsection \<open>The built-in \<^verbatim>\<open>int\<close>\<close>

text \<open>
  \<^verbatim>\<open>int(s)\<close> of a string, base ten: white space around, an optional sign, then digits,
  where single underscores may stand between digits. \<open>None\<close> is \<^verbatim>\<open>ValueError\<close>.

  The white space that CPython skips here is tab to carriage return (9 to 13) and the
  space; of the code points from 127 on it first turns the white space (133 and 160, below
  256) into spaces. The separators 28 to 31 are not skipped. No code point below 256 but
  the ASCII digits is a decimal digit. A string of more than 4300 digits is refused (the
  default of \<^verbatim>\<open>sys.int_max_str_digits\<close>).
\<close>

definition is_space :: "char \<Rightarrow> bool" where
  "is_space c =
     (let n = (of_char c :: nat) in (9 \<le> n \<and> n \<le> 13) \<or> n = 32 \<or> n = 133 \<or> n = 160)"

definition is_digit :: "char \<Rightarrow> bool" where
  "is_digit c = (let n = (of_char c :: nat) in 48 \<le> n \<and> n \<le> 57)"

definition digit_val :: "char \<Rightarrow> int" where
  "digit_val c = int (of_char c) - 48"

definition strip :: "string \<Rightarrow> string" where
  "strip s = rev (dropWhile is_space (rev (dropWhile is_space s)))"

fun digits_val :: "bool \<Rightarrow> int \<Rightarrow> string \<Rightarrow> int option" where
  "digits_val need acc [] = (if need then None else Some acc)"
| "digits_val need acc (c # cs) =
     (if is_digit c then digits_val False (10 * acc + digit_val c) cs
      else if c = CHR ''_'' \<and> \<not> need then digits_val True acc cs
      else None)"

definition max_str_digits :: nat where
  "max_str_digits = 4300"

definition int_of_str :: "string \<Rightarrow> int option" where
  "int_of_str s =
     (let t = strip s in
      if max_str_digits < length (filter is_digit t) then None
      else
        (case t of
           [] \<Rightarrow> None
         | c # cs \<Rightarrow>
             if c = CHR ''-'' then map_option uminus (digits_val True 0 cs)
             else if c = CHR ''+'' then digits_val True 0 cs
             else digits_val True 0 (c # cs)))"

fun py_int :: "pyval \<Rightarrow> error + int" where
  "py_int (VInt i) = Inr i"
| "py_int (VBool b) = Inr (if b then 1 else 0)"
| "py_int (VStr s) = (case int_of_str s of None \<Rightarrow> Inl ValueError | Some i \<Rightarrow> Inr i)"
| "py_int v = Inl TypeError"

section \<open>Reading the configuration\<close>

text \<open>The keys of a device entry.\<close>

definition KEY_VERSION :: pyval where "KEY_VERSION = VStr ''_version''"
definition KEY_NAME :: pyval where "KEY_NAME = VStr ''_NAME''"
definition KEY_WPID :: pyval where "KEY_WPID = VStr ''_wpid''"
definition KEY_SERIAL :: pyval where "KEY_SERIAL = VStr ''_serial''"
definition KEY_MODEL_ID :: pyval where "KEY_MODEL_ID = VStr ''_modelId''"
definition KEY_UNIT_ID :: pyval where "KEY_UNIT_ID = VStr ''_unitId''"

subsection \<open>\<^verbatim>\<open>_device_entry_from_config_dict\<close>\<close>

text \<open>
  The assignment \<^verbatim>\<open>obj[n] = v\<close> for an integer \<open>n\<close>: a dictionary takes the key, a list takes
  an index in its range (a negative one counts from the end), nothing else takes an item.
  Inside a loaded document every dictionary is a plain \<^verbatim>\<open>dict\<close>.
\<close>

fun obj_setitem :: "pyval \<Rightarrow> int \<Rightarrow> pyval \<Rightarrow> error + pyval" where
  "obj_setitem (VDict d) n v = Inr (VDict (dict_set d (VInt n) v))"
| "obj_setitem (VEntry d) n v = Inr (VEntry (dict_set d (VInt n) v))"
| "obj_setitem (VList l) n v =
     (let j = (if n < 0 then n + int (length l) else n) in
      if 0 \<le> j \<and> j < int (length l) then Inr (VList (l[nat j := v])) else Inl IndexError)"
| "obj_setitem obj n v = Inl TypeError"

text \<open>
  The conversion of the old \<^verbatim>\<open>dpi-sliding\<close> and \<^verbatim>\<open>mouse-gestures\<close> settings, done when
  \<^verbatim>\<open>divert-keys\<close> is truthy: \<^verbatim>\<open>if old: divert[int(old)] = code\<close>, where \<^verbatim>\<open>int(old)\<close> is
  evaluated before the assignment is tried. A truthy \<^verbatim>\<open>divert-keys\<close> that is no dictionary
  raises at the latest at \<^verbatim>\<open>divert.items()\<close>.
\<close>

definition inject_divert :: "pyval \<Rightarrow> pyval \<Rightarrow> int \<Rightarrow> error + pyval" where
  "inject_divert divert old code =
     (if truthy old then
        (case py_int old of
           Inl e \<Rightarrow> Inl e
         | Inr n \<Rightarrow> obj_setitem divert n (VInt code))
      else Inr divert)"

definition convert_divert :: "pydict \<Rightarrow> error + pydict" where
  "convert_divert data =
     (let divert = dict_get data (VStr ''divert-keys'') in
      if truthy divert then
        (case inject_divert divert (dict_get data (VStr ''dpi-sliding'')) 3 of
           Inl e \<Rightarrow> Inl e
         | Inr divert1 \<Rightarrow>
             (let data1 = dict_pop data (VStr ''dpi-sliding'') in
              case inject_divert divert1 (dict_get data1 (VStr ''mouse-gestures'')) 2 of
                Inl e \<Rightarrow> Inl e
              | Inr divert2 \<Rightarrow>
                  (let data2 = dict_pop data1 (VStr ''mouse-gestures'') in
                   if is_dict divert2 then
                     Inr (dict_set data2 (VStr ''divert-keys'')
                            (VDict (filter (\<lambda>kv. is_int (fst kv)) (items divert2))))
                   else Inl AttributeError)))
      else Inr data)"

definition default_sensitive :: pyval where
  "default_sensitive =
     VDict [(VStr ''hires-smooth-resolution'', VStr ''ignore''),
            (VStr ''hires-smooth-invert'', VStr ''ignore''),
            (VStr ''hires-scroll-mode'', VStr ''ignore'')]"

text \<open>
  \<^verbatim>\<open>_DeviceEntry(**data)\<close>: every keyword has to be a string, and the keyword \<^verbatim>\<open>self\<close>
  clashes with the first parameter of \<^verbatim>\<open>__init__(self, **kwargs)\<close>.
\<close>

definition DeviceEntry :: "pydict \<Rightarrow> error + pyval" where
  "DeviceEntry data =
     (if list_all (\<lambda>kv. is_str (fst kv) \<and> fst kv \<noteq> VStr ''self'') data
      then Inr (VEntry data)
      else Inl TypeError)"

definition device_entry_from_config_dict :: "pydict \<Rightarrow> bool \<Rightarrow> error + pyval" where
  "device_entry_from_config_dict data discard_derived_properties =
     (case convert_divert data of
        Inl e \<Rightarrow> Inl e
      | Inr data1 \<Rightarrow>
          (let data2 = (if dict_get data1 (VStr ''_sensitive'') = VNone
                        then dict_set data1 (VStr ''_sensitive'') default_sensitive
                        else data1);
               data3 = (if discard_derived_properties
                        then dict_pop (dict_pop data2 (VStr ''_absent'')) (VStr ''_battery'')
                        else data2)
           in DeviceEntry data3))"

subsection \<open>\<^verbatim>\<open>_parse_config\<close>\<close>

text \<open>
  The loop over \<^verbatim>\<open>loaded_config[1:]\<close>. It appends to \<^verbatim>\<open>parsed_config\<close> and stops at the
  first exception; the result is the list as it is then, and the exception, if any.
\<close>

fun parse_devices :: "bool \<Rightarrow> pyval list \<Rightarrow> pyval list \<Rightarrow> pyval list \<times> error option" where
  "parse_devices discard parsed_config [] = (parsed_config, None)"
| "parse_devices discard parsed_config (device # rest) =
     (if is_dict device then
        (case device_entry_from_config_dict (items device) discard of
           Inl e \<Rightarrow> (parsed_config, Some e)
         | Inr entry \<Rightarrow> parse_devices discard (parsed_config @ [entry]) rest)
      else (parsed_config, Some AssertionError))"

text \<open>
  The body of the \<^verbatim>\<open>try\<close> block. \<open>current_version\<close> is \<^verbatim>\<open>solaar.__version__\<close>. A loaded
  value that is truthy and no list raises before anything is appended: a number at
  \<^verbatim>\<open>loaded_config[0]\<close>, a dictionary there or, if it has the key 0, at the slice (the
  model reports \<open>KeyError\<close> for both; the handler catches every \<^verbatim>\<open>Exception\<close> and the
  kind is not returned), a string of two or more characters at the assertion (a string of
  one character runs the loop over nothing).
\<close>

definition parse_body :: "string \<Rightarrow> pyval \<Rightarrow> pyval list \<times> error option" where
  "parse_body current_version loaded_config =
     (let parsed_config = [VStr current_version] in
      if \<not> truthy loaded_config then (parsed_config, None)
      else
        (case loaded_config of
           VList l \<Rightarrow>
             (let loaded_version = hd l;
                  discard_derived_properties = (loaded_version \<noteq> VStr current_version)
              in parse_devices discard_derived_properties parsed_config (tl l))
         | VStr s \<Rightarrow> (parsed_config, if length s = 1 then None else Some AssertionError)
         | VInt i \<Rightarrow> (parsed_config, Some TypeError)
         | VBool b \<Rightarrow> (parsed_config, Some TypeError)
         | _ \<Rightarrow> (parsed_config, Some KeyError)))"

text \<open>The handler logs the exception and falls through to \<^verbatim>\<open>return parsed_config\<close>.\<close>

definition parse_config :: "string \<Rightarrow> pyval \<Rightarrow> pyval list" where
  "parse_config current_version loaded_config = fst (parse_body current_version loaded_config)"

section \<open>The legacy converter\<close>

text \<open>\<^verbatim>\<open>s.split(sep)\<close> for a separator of one character: never an empty list.\<close>

fun split_on :: "char \<Rightarrow> string \<Rightarrow> string list" where
  "split_on sep [] = [[]]"
| "split_on sep (c # cs) =
     (if c = sep then [] # split_on sep cs
      else (case split_on sep cs of
              [] \<Rightarrow> [[c]]
            | p # ps \<Rightarrow> (c # p) # ps))"

text \<open>\<^verbatim>\<open>k.startswith("_")\<close> of a string.\<close>

fun startswith_underscore :: "pyval \<Rightarrow> bool" where
  "startswith_underscore (VStr (c # cs)) = (c = CHR ''_'')"
| "startswith_underscore v = False"

text \<open>
  The comprehension \<^verbatim>\<open>{int(dk) if isinstance(dk, str) else dk: dv for dk, dv in v.items()}\<close>:
  the new dictionary is filled in the order of the old one.
\<close>

fun convert_keys :: "pydict \<Rightarrow> pydict \<Rightarrow> error + pydict" where
  "convert_keys acc [] = Inr acc"
| "convert_keys acc ((dk, dv) # rest) =
     (if is_str dk then
        (case py_int dk of
           Inl e \<Rightarrow> Inl e
         | Inr n \<Rightarrow> convert_keys (dict_set acc (VInt n) dv) rest)
      else convert_keys (dict_set acc dk dv) rest)"

text \<open>
  The loop \<^verbatim>\<open>for k, v in dev.items(): ... dev[k] = v\<close>. It assigns to keys that are
  present only, so the dictionary keeps its keys and their order while it is iterated.
\<close>

fun convert_settings :: "pydict \<Rightarrow> pydict \<Rightarrow> error + pydict" where
  "convert_settings dev [] = Inr dev"
| "convert_settings dev ((k, v) # rest) =
     (if is_str k \<and> \<not> startswith_underscore k \<and> is_dict v then
        (case convert_keys [] (items v) of
           Inl e \<Rightarrow> Inl e
         | Inr v' \<Rightarrow> convert_settings (dict_set dev k (VDict v')) rest)
      else convert_settings (dict_set dev k v) rest)"

text \<open>\<^verbatim>\<open>v = dev.get(k, None)\<close>, then \<^verbatim>\<open>dev.pop(k)\<close> when \<^verbatim>\<open>v is True or v is False\<close>.\<close>

definition drop_boolean :: "pydict \<Rightarrow> pyval \<Rightarrow> pydict" where
  "drop_boolean dev k = (case dict_get dev k of VBool b \<Rightarrow> dict_pop dev k | _ \<Rightarrow> dev)"

definition rename_name :: "pydict \<Rightarrow> pydict" where
  "rename_name dev =
     (if dict_has dev (VStr ''_name'')
      then dict_pop (dict_set dev KEY_NAME (dict_get dev (VStr ''_name''))) (VStr ''_name'')
      else dev)"

text \<open>The same dictionary object with new contents.\<close>

fun with_items :: "pyval \<Rightarrow> pydict \<Rightarrow> pyval" where
  "with_items (VEntry old) d = VEntry d"
| "with_items v d = VDict d"

text \<open>
  The body of the branch \<^verbatim>\<open>len(key) == 2\<close> for one device: \<open>key0\<close> and \<open>key1\<close> are the two
  parts of the key. A value that is no dictionary has no \<^verbatim>\<open>get\<close>.
\<close>

definition convert_device :: "string \<Rightarrow> string \<Rightarrow> pyval \<Rightarrow> error + pyval" where
  "convert_device key0 key1 dev =
     (if is_dict dev then
        (let d = items dev;
             d1 = dict_set d KEY_WPID
                    (if truthy (dict_get d KEY_WPID) then dict_get d KEY_WPID else VStr key0);
             d2 = dict_set d1 KEY_SERIAL
                    (if truthy (dict_get d1 KEY_SERIAL) then dict_get d1 KEY_SERIAL else VStr key1)
         in case convert_settings d2 d2 of
              Inl e \<Rightarrow> Inl e
            | Inr d3 \<Rightarrow>
                Inr (with_items dev
                       (rename_name
                          (drop_boolean (drop_boolean d3 (VStr ''mouse-gestures''))
                             (VStr ''dpi-sliding'')))))
      else Inl AttributeError)"

text \<open>The loop over \<^verbatim>\<open>json_dict.items()\<close>; a key that is no string has no \<^verbatim>\<open>split\<close>.\<close>

fun convert_loop :: "pyval list \<Rightarrow> pydict \<Rightarrow> error + pyval list" where
  "convert_loop acc [] = Inr acc"
| "convert_loop acc ((key, dev) # rest) =
     (case key of
        VStr s \<Rightarrow>
          (let parts = split_on CHR '':'' s in
           if length parts = 2 then
             (case convert_device (parts ! 0) (parts ! 1) dev of
                Inl e \<Rightarrow> Inl e
              | Inr dev' \<Rightarrow> convert_loop (acc @ [dev']) rest)
           else convert_loop acc rest)
      | _ \<Rightarrow> Inl AttributeError)"

definition convert_json :: "pyval \<Rightarrow> error + pyval list" where
  "convert_json json_dict =
     (if is_dict json_dict
      then convert_loop [dict_get (items json_dict) KEY_VERSION] (items json_dict)
      else Inl AttributeError)"

section \<open>The module state\<close>

text \<open>
  What the file system holds is an input of \<^verbatim>\<open>_load\<close>: a file is absent, or it is there and
  reading it raises, or it is there and the library returns a value.
\<close>

datatype disk_file = Absent | Unreadable | Content pyval

record env =
  current_version :: string
  yaml_file :: disk_file
  json_file :: disk_file

text \<open>\<^verbatim>\<open>_load\<close>: the new value of \<^verbatim>\<open>_config\<close>. An exception of \<^verbatim>\<open>_convert_json\<close> is not caught.\<close>

definition load :: "env \<Rightarrow> error + pyval list" where
  "load e =
     (case yaml_file e of
        Content v \<Rightarrow> Inr (parse_config (current_version e) v)
      | Unreadable \<Rightarrow> Inr (parse_config (current_version e) (VList []))
      | Absent \<Rightarrow>
          (case json_file e of
             Absent \<Rightarrow> Inr (parse_config (current_version e) (VList []))
           | f \<Rightarrow>
               (case convert_json (case f of Content v \<Rightarrow> v | _ \<Rightarrow> VList []) of
                  Inl err \<Rightarrow> Inl err
                | Inr c \<Rightarrow> Inr (parse_config (current_version e) (VList c)))))"

text \<open>
  The globals \<^verbatim>\<open>_config\<close>, \<^verbatim>\<open>save_timer\<close> and \<^verbatim>\<open>defer_saves\<close>. A \<^verbatim>\<open>threading.Timer\<close> object is
  a number; \<open>timers\<close> are the timers that were started and have neither fired nor been
  cancelled, \<open>next_timer\<close> names the next object. \<open>save_calls\<close> counts the calls of \<^verbatim>\<open>save\<close> and
  \<open>writes\<close> lists the documents dumped to the file: both are observations, no code reads
  them.
\<close>

record state =
  config :: "pyval list"
  save_timer :: "nat option"
  defer_saves :: bool
  timers :: "nat list"
  next_timer :: nat
  save_calls :: nat
  writes :: "pyval list list"

text \<open>\<^verbatim>\<open>do_save\<close>; \<open>wr_ok\<close> says whether opening and dumping went through.\<close>

definition do_save :: "bool \<Rightarrow> state \<Rightarrow> state" where
  "do_save wr_ok s =
     (let s1 = (case save_timer s of
                  Some t \<Rightarrow> s\<lparr>timers := removeAll t (timers s), save_timer := None\<rparr>
                | None \<Rightarrow> s)
      in if wr_ok then s1\<lparr>writes := writes s1 @ [config s1]\<rparr> else s1)"

text \<open>\<^verbatim>\<open>save\<close>; \<open>dir_ok\<close> says whether the directory is there or could be made.\<close>

definition save :: "bool \<Rightarrow> bool \<Rightarrow> bool \<Rightarrow> state \<Rightarrow> state" where
  "save defer dir_ok wr_ok s0 =
     (let s = s0\<lparr>save_calls := Suc (save_calls s0)\<rparr> in
      if config s = [] then s
      else if \<not> dir_ok then s
      else if \<not> defer \<or> \<not> defer_saves s then do_save wr_ok s
      else
        (case save_timer s of
           None \<Rightarrow>
             s\<lparr>save_timer := Some (next_timer s),
               timers := timers s @ [next_timer s],
               next_timer := Suc (next_timer s)\<rparr>
         | Some t \<Rightarrow> s))"

text \<open>
  The wait of a pending timer ends: the timer is pending no more. Its thread calls
  \<^verbatim>\<open>do_save\<close>, at once (\<open>timer_fires\<close>) or after other calls have taken the lock first
  (\<open>timer_expires\<close>, with the call of \<^verbatim>\<open>do_save\<close> as a later event).
\<close>

definition timer_expires :: "nat \<Rightarrow> state \<Rightarrow> state" where
  "timer_expires t s = s\<lparr>timers := removeAll t (timers s)\<rparr>"

definition timer_fires :: "nat \<Rightarrow> bool \<Rightarrow> state \<Rightarrow> state" where
  "timer_fires t wr_ok s =
     (if t \<in> set (timers s) then do_save wr_ok (timer_expires t s) else s)"

text \<open>What can happen to the scheduler, one event under the lock at a time.\<close>

datatype event =
    Save bool bool bool
  | DoSave bool
  | TimerFires nat bool
  | TimerExpires nat

fun step :: "state \<Rightarrow> event \<Rightarrow> state" where
  "step s (Save defer dir_ok wr_ok) = save defer dir_ok wr_ok s"
| "step s (DoSave wr_ok) = do_save wr_ok s"
| "step s (TimerFires t wr_ok) = timer_fires t wr_ok s"
| "step s (TimerExpires t) = timer_expires t s"

definition run :: "state \<Rightarrow> event list \<Rightarrow> state" where
  "run s evs = foldl step s evs"

text \<open>At most one timer is pending, and it is the one \<^verbatim>\<open>save_timer\<close> refers to.\<close>

definition one_timer :: "state \<Rightarrow> bool" where
  "one_timer s =
     (case timers s of
        [] \<Rightarrow> True
      | [t] \<Rightarrow> save_timer s = Some t
      | _ \<Rightarrow> False)"

section \<open>Device entries\<close>

text \<open>
  An entry is referred to by its place in \<^verbatim>\<open>_config\<close>, so that a change of the entry is a
  change of the document, as with the shared Python object. The identity values of a
  device are strings or \<^verbatim>\<open>None\<close>.
\<close>

definition pystr :: "string option \<Rightarrow> pyval" where
  "pystr x = (case x of None \<Rightarrow> VNone | Some s \<Rightarrow> VStr s)"

definition entry_items :: "state \<Rightarrow> nat \<Rightarrow> pydict" where
  "entry_items s i = (if i < length (config s) then items (config s ! i) else [])"

text \<open>\<^verbatim>\<open>super().__setitem__(key, value)\<close>: the plain assignment of \<^verbatim>\<open>dict\<close>.\<close>

definition super_setitem :: "nat \<Rightarrow> pyval \<Rightarrow> pyval \<Rightarrow> state \<Rightarrow> state" where
  "super_setitem i k v s = s\<lparr>config := (config s)[i := VEntry (dict_set (entry_items s i) k v)]\<rparr>"

text \<open>\<^verbatim>\<open>_DeviceEntry.__setitem__\<close>: the assignment, then \<^verbatim>\<open>save(defer=True)\<close>.\<close>

definition setitem :: "nat \<Rightarrow> pyval \<Rightarrow> pyval \<Rightarrow> bool \<Rightarrow> bool \<Rightarrow> state \<Rightarrow> state" where
  "setitem i k v dir_ok wr_ok s = save True dir_ok wr_ok (super_setitem i k v s)"

text \<open>One statement of \<^verbatim>\<open>_DeviceEntry.update\<close>:
  \<^verbatim>\<open>if x and x != self.get(key): super().__setitem__(key, x)\<close>.\<close>

definition update_field :: "nat \<Rightarrow> pyval \<Rightarrow> string option \<Rightarrow> state \<Rightarrow> state" where
  "update_field i key x s =
     (if truthy (pystr x) \<and> pystr x \<noteq> dict_get (entry_items s i) key
      then super_setitem i key (pystr x) s
      else s)"

definition update ::
  "nat \<Rightarrow> string option \<Rightarrow> string option \<Rightarrow> string option \<Rightarrow> string option \<Rightarrow> string option
     \<Rightarrow> state \<Rightarrow> state" where
  "update i name wpid serial modelId unitId s =
     update_field i KEY_UNIT_ID unitId
       (update_field i KEY_MODEL_ID modelId
          (update_field i KEY_SERIAL serial
             (update_field i KEY_WPID wpid
                (update_field i KEY_NAME name s))))"

section \<open>The persister\<close>

text \<open>
  The attributes of a device that \<^verbatim>\<open>persister\<close> reads. \<open>dev_name\<close> and \<open>dev_serial\<close> are
  \<^verbatim>\<open>device.name\<close> and \<^verbatim>\<open>device.serial\<close>, \<open>dev_priv_name\<close> and \<open>dev_priv_serial\<close> are
  \<^verbatim>\<open>device._name\<close> and \<^verbatim>\<open>device._serial\<close>.
\<close>

record device =
  dev_name :: "string option"
  dev_priv_name :: "string option"
  dev_wpid :: "string option"
  dev_serial :: "string option"
  dev_priv_serial :: "string option"
  dev_modelId :: "string option"
  dev_unitId :: "string option"
  dev_online :: bool

definition zero_id :: string where
  "zero_id = ''000000000000''"

text \<open>The truth value of the result of the inner function \<^verbatim>\<open>match\<close>.\<close>

definition match ::
  "string option \<Rightarrow> string option \<Rightarrow> string option \<Rightarrow> string option \<Rightarrow> pydict \<Rightarrow> bool" where
  "match wpid serial modelId unitId c =
     ((truthy (pystr wpid) \<and> pystr wpid = dict_get c KEY_WPID
         \<and> truthy (pystr serial) \<and> pystr serial = dict_get c KEY_SERIAL)
      \<or> (truthy (pystr modelId) \<and> pystr modelId = dict_get c KEY_MODEL_ID
         \<and> truthy (pystr unitId) \<and> pystr unitId = dict_get c KEY_UNIT_ID))"

text \<open>The two assignments before the loop.\<close>

definition effective_modelId :: "device \<Rightarrow> string option" where
  "effective_modelId d =
     (if dev_modelId d \<noteq> Some zero_id then dev_modelId d
      else if truthy (pystr (dev_modelId d)) then dev_priv_name d
      else None)"

definition effective_unitId :: "device \<Rightarrow> string option" where
  "effective_unitId d =
     (if dev_modelId d \<noteq> Some zero_id then dev_unitId d
      else if truthy (pystr (dev_unitId d)) then dev_priv_serial d
      else None)"

text \<open>The loop \<^verbatim>\<open>for c in _config\<close> with its \<^verbatim>\<open>break\<close>: the place of the entry found.\<close>

fun find_entry ::
  "string option \<Rightarrow> string option \<Rightarrow> string option \<Rightarrow> string option \<Rightarrow> pyval list \<Rightarrow> nat
     \<Rightarrow> nat option" where
  "find_entry wpid serial modelId unitId [] i = None"
| "find_entry wpid serial modelId unitId (c # cs) i =
     (if is_DeviceEntry c \<and> match wpid serial modelId unitId (items c) then Some i
      else find_entry wpid serial modelId unitId cs (Suc i))"

text \<open>
  \<^verbatim>\<open>persister\<close> returns the entry (its place in the document) or \<^verbatim>\<open>None\<close>. The test
  \<^verbatim>\<open>if not entry\<close> is true also for an entry that is an empty dictionary.
\<close>

definition persister :: "env \<Rightarrow> device \<Rightarrow> state \<Rightarrow> error + (nat option \<times> state)" where
  "persister e d s =
     (case (if config s = [] then load e else Inr (config s)) of
        Inl err \<Rightarrow> Inl err
      | Inr cfg \<Rightarrow>
          (let s1 = s\<lparr>config := cfg\<rparr>;
               modelId = effective_modelId d;
               unitId = effective_unitId d;
               entry = (case find_entry (dev_wpid d) (dev_priv_serial d) modelId unitId cfg 0 of
                          None \<Rightarrow> None
                        | Some i \<Rightarrow> if entry_items s1 i = [] then None else Some i)
           in case entry of
                None \<Rightarrow>
                  if \<not> dev_online d then Inr (None, s1)
                  else
                    Inr (Some (length cfg),
                         update (length cfg) (dev_name d) (dev_wpid d) (dev_serial d) modelId unitId
                           (s1\<lparr>config := cfg @ [VEntry []]\<rparr>))
              | Some i \<Rightarrow>
                  Inr (Some i,
                       update i (dev_name d) (dev_wpid d) (dev_serial d) modelId unitId s1)))"

section \<open>Notions of the specification\<close>

text \<open>
  The matching rule in the words of the specification: a field of the identity counts when
  it is a non-empty string and the record holds that very string under the key.
\<close>

definition field_is :: "pydict \<Rightarrow> pyval \<Rightarrow> string option \<Rightarrow> bool" where
  "field_is record key x =
     (case x of
        None \<Rightarrow> False
      | Some v \<Rightarrow> v \<noteq> [] \<and> dict_lookup record key = Some (VStr v))"

definition spec_match ::
  "string option \<Rightarrow> string option \<Rightarrow> string option \<Rightarrow> string option \<Rightarrow> pydict \<Rightarrow> bool" where
  "spec_match wpid serial modelId unitId record =
     ((field_is record KEY_WPID wpid \<and> field_is record KEY_SERIAL serial)
      \<or> (field_is record KEY_MODEL_ID modelId \<and> field_is record KEY_UNIT_ID unitId))"

text \<open>The parts of a top-level key of the legacy document, and the entry made of an item.\<close>

definition key_parts :: "pyval \<Rightarrow> string list" where
  "key_parts k = (case k of VStr s \<Rightarrow> split_on CHR '':'' s | _ \<Rightarrow> [])"

definition is_device_key :: "pyval \<Rightarrow> bool" where
  "is_device_key k = (length (key_parts k) = 2)"

definition converted :: "pyval \<times> pyval \<Rightarrow> error + pyval" where
  "converted kv = convert_device (key_parts (fst kv) ! 0) (key_parts (fst kv) ! 1) (snd kv)"

text \<open>
  Equality of two dictionaries of distinct keys, as \<^verbatim>\<open>==\<close> has it: the same keys with the
  same values, in any order.
\<close>

fun dict_included :: "pydict \<Rightarrow> pydict \<Rightarrow> bool" where
  "dict_included [] b = True"
| "dict_included ((k, v) # a) b = (dict_lookup b k = Some v \<and> dict_included a b)"

definition dict_equal :: "pydict \<Rightarrow> pydict \<Rightarrow> bool" where
  "dict_equal a b = (length a = length b \<and> dict_included a b)"

section \<open>Example inputs\<close>

text \<open>The legacy document of the specification's example.\<close>

definition legacy_example :: pyval where
  "legacy_example =
     VDict [(VStr ''_version'', VStr ''0.9''),
            (VStr ''AABB:12345'',
             VDict [(VStr ''_name'', VStr ''Mouse''), (VStr ''mouse-gestures'', VBool True)])]"

text \<open>A legacy document with two keys that do not split into two parts.\<close>

definition legacy_odd_keys :: pydict where
  "legacy_odd_keys =
     [(VStr ''_version'', VStr ''0.9''),
      (VStr ''AABB'', VDict [(VStr ''_name'', VStr ''Lost'')]),
      (VStr ''AABB:12345'', VDict [(VStr ''_name'', VStr ''Mouse'')]),
      (VStr ''CC:DD:EE'', VDict [(VStr ''_name'', VStr ''Lost too'')])]"

text \<open>A loaded document whose second record is a number.\<close>

definition malformed_example :: pyval where
  "malformed_example =
     VList [VStr ''1.0'',
            VDict [(VStr ''_NAME'', VStr ''A''), (VStr ''_wpid'', VStr ''4051''),
                   (VStr ''_serial'', VStr ''S1'')],
            VInt 5,
            VDict [(VStr ''_NAME'', VStr ''B'')]]"

text \<open>A state after loading, with two records, and an empty environment.\<close>

definition record_A :: pydict where
  "record_A = [(VStr ''_NAME'', VStr ''A''), (VStr ''_wpid'', VStr ''4051''),
               (VStr ''_serial'', VStr ''S1'')]"

definition record_B :: pydict where
  "record_B = [(VStr ''_NAME'', VStr ''B''), (VStr ''_wpid'', VStr ''4082''),
               (VStr ''_serial'', VStr ''S2'')]"

definition example_state :: state where
  "example_state =
     \<lparr>config = [VStr ''1.0'', VEntry record_A, VEntry record_B],
      save_timer = None, defer_saves = True, timers = [], next_timer = 0,
      save_calls = 0, writes = []\<rparr>"

text \<open>The example state after record 1 was updated with a new name and two new identifiers.\<close>

definition example_updated :: state where
  "example_updated =
     example_state\<lparr>config :=
       [VStr ''1.0'',
        VEntry [(VStr ''_NAME'', VStr ''A2''), (VStr ''_wpid'', VStr ''4051''),
                (VStr ''_serial'', VStr ''S1''), (VStr ''_modelId'', VStr ''M1''),
                (VStr ''_unitId'', VStr ''U1'')],
        VEntry record_B]\<rparr>"

definition example_env :: env where
  "example_env = \<lparr>current_version = ''1.0'', yaml_file = Absent, json_file = Absent\<rparr>"

text \<open>
  A start with nothing loaded yet, where \<^verbatim>\<open>config.yaml\<close> is absent and the legacy
  \<^verbatim>\<open>config.json\<close> is there but cannot be read; and the same start with an unreadable
  \<^verbatim>\<open>config.yaml\<close> instead.
\<close>

definition unloaded_state :: state where
  "unloaded_state = example_state\<lparr>config := []\<rparr>"

definition unreadable_json_env :: env where
  "unreadable_json_env = \<lparr>current_version = ''1.0'', yaml_file = Absent, json_file = Unreadable\<rparr>"

definition unreadable_yaml_env :: env where
  "unreadable_yaml_env = \<lparr>current_version = ''1.0'', yaml_file = Unreadable, json_file = Absent\<rparr>"

text \<open>A keyboard that reports zero identifiers, seen online (a display name, no pairing).\<close>

definition zero_keyboard :: device where
  "zero_keyboard =
     \<lparr>dev_name = Some ''Keyboard K1'', dev_priv_name = Some ''Keyboard K1'',
      dev_wpid = None, dev_serial = Some ''77AA'', dev_priv_serial = Some ''77AA'',
      dev_modelId = Some ''000000000000'', dev_unitId = Some ''00000000'',
      dev_online = True\<rparr>"

text \<open>The state after \<^verbatim>\<open>persister\<close> has stored that keyboard in the example state.\<close>

definition zero_keyboard_stored :: state where
  "zero_keyboard_stored =
     example_state\<lparr>config :=
       [VStr ''1.0'', VEntry record_A, VEntry record_B,
        VEntry [(VStr ''_NAME'', VStr ''Keyboard K1''), (VStr ''_serial'', VStr ''77AA''),
                (VStr ''_modelId'', VStr ''Keyboard K1''), (VStr ''_unitId'', VStr ''77AA'')]]\<rparr>"

text \<open>A device with a model identifier whose unit identifier is all zeros.\<close>

definition zero_unit_device :: device where
  "zero_unit_device =
     \<lparr>dev_name = Some ''Mouse M1'', dev_priv_name = Some ''Mouse M1'',
      dev_wpid = None, dev_serial = Some ''55BB'', dev_priv_serial = Some ''55BB'',
      dev_modelId = Some ''B02A00000000'', dev_unitId = Some ''000000000000'',
      dev_online = True\<rparr>"

text \<open>A device that is off-line and was never stored.\<close>

definition offline_device :: device where
  "offline_device =
     \<lparr>dev_name = Some ''Mouse M2'', dev_priv_name = Some ''Mouse M2'',
      dev_wpid = Some ''4099'', dev_serial = Some ''S9'', dev_priv_serial = Some ''S9'',
      dev_modelId = None, dev_unitId = None, dev_online = False\<rparr>"

text \<open>The example state with one timer pending, and a burst of requests and writes.\<close>

definition pending_state :: state where
  "pending_state =
     example_state\<lparr>save_timer := Some 0, timers := [0], next_timer := 1, save_calls := 1\<rparr>"

definition burst :: "event list" where
  "burst = [Save True True True, Save True True True, Save False True True,
            Save True True True, TimerFires 1 True, Save True True True, TimerExpires 2,
            Save True True True, DoSave False, Save True True True]"

section \<open>Properties of the parser\<close>

lemmas KEY_defs =
  KEY_VERSION_def KEY_NAME_def KEY_WPID_def KEY_SERIAL_def KEY_MODEL_ID_def KEY_UNIT_ID_def

lemma parse_devices_prefix:
  "\<exists>more. fst (parse_devices discard acc devices) = acc @ more"
proof (induction devices arbitrary: acc)
  case Nil
  show ?case by simp
next
  case (Cons device rest)
  show ?case
  proof (cases "is_dict device")
    case False
    then show ?thesis by simp
  next
    case True
    show ?thesis
    proof (cases "device_entry_from_config_dict (items device) discard")
      case (Inl e)
      with True show ?thesis by simp
    next
      case (Inr entry)
      from Cons.IH [of "acc @ [entry]"] obtain more
        where "fst (parse_devices discard (acc @ [entry]) rest) = (acc @ [entry]) @ more"
        by blast
      with True Inr show ?thesis by simp
    qed
  qed
qed

text \<open>
  C9. Whatever was loaded, element 0 of the parsed document is the version of the running
  application, never the version tag of the file.
\<close>

theorem parse_config_version_first:
  "\<exists>records. parse_config cv loaded_config = VStr cv # records"
proof (cases "truthy loaded_config")
  case False
  then show ?thesis by (simp add: parse_config_def parse_body_def)
next
  case True
  show ?thesis
  proof (cases loaded_config)
    case (VList l)
    obtain more where
      "fst (parse_devices (hd l \<noteq> VStr cv) [VStr cv] (tl l))
         = [VStr cv] @ more"
      using parse_devices_prefix by blast
    with True VList show ?thesis by (simp add: parse_config_def parse_body_def)
  qed (use True in \<open>simp_all add: parse_config_def parse_body_def\<close>)
qed

text \<open>
  Where the loop meets an element that is no dictionary it stops with the records before
  that element in the list, and \<^verbatim>\<open>_parse_config\<close> returns this list.
\<close>

lemma parse_devices_stops_at_malformed:
  assumes "list_all is_dict good"
    and "map (\<lambda>device. device_entry_from_config_dict (items device) discard) good = map Inr entries"
    and "\<not> is_dict bad"
  shows "parse_devices discard acc (good @ bad # rest) = (acc @ entries, Some AssertionError)"
  using assms
proof (induction good arbitrary: acc entries)
  case Nil
  then show ?case by simp
next
  case (Cons device good)
  from Cons.prems(2) obtain entry entries' where e: "entries = entry # entries'"
    and d: "device_entry_from_config_dict (items device) discard = Inr entry"
    and m: "map (\<lambda>device. device_entry_from_config_dict (items device) discard) good = map Inr entries'"
    by (cases entries) auto
  from Cons.prems(1) have dict: "is_dict device" and rest: "list_all is_dict good"
    by simp_all
  from Cons.IH [OF rest m Cons.prems(3), of "acc @ [entry]"] dict d e
  show ?case by simp
qed

text \<open>
  C1. On the document whose second record is the number 5, the parser stops at that
  record but returns the first record with the version: the result is not the version
  alone.
\<close>

theorem parse_config_keeps_records_before_malformed:
  "parse_config ''1.0'' malformed_example =
     [VStr ''1.0'',
      VEntry [(VStr ''_NAME'', VStr ''A''), (VStr ''_wpid'', VStr ''4051''),
              (VStr ''_serial'', VStr ''S1''), (VStr ''_sensitive'', default_sensitive)]]
   \<and> parse_config ''1.0'' malformed_example \<noteq> [VStr ''1.0'']"
  by (simp add: parse_config_def parse_body_def malformed_example_def
      device_entry_from_config_dict_def convert_divert_def dict_get_def key_eq_def
      DeviceEntry_def Let_def)

section \<open>Properties of dictionaries\<close>

lemma key_eq_refl: "key_eq k k"
  by (simp add: key_eq_def)

lemma key_eq_trans_neg: "key_eq k0 k \<Longrightarrow> \<not> key_eq k k' \<Longrightarrow> \<not> key_eq k0 k'"
  by (simp add: key_eq_def)

lemma dict_lookup_set_same: "dict_lookup (dict_set d k v) k = Some v"
  by (induction d) (auto simp: key_eq_refl)

lemma dict_lookup_set_other:
  "\<not> key_eq k k' \<Longrightarrow> dict_lookup (dict_set d k v) k' = dict_lookup d k'"
  by (induction d) (auto simp: key_eq_def)

lemma dict_get_set_same: "dict_get (dict_set d k v) k = v"
  by (simp add: dict_get_def dict_lookup_set_same)

lemma dict_get_set_other: "\<not> key_eq k k' \<Longrightarrow> dict_get (dict_set d k v) k' = dict_get d k'"
  by (simp add: dict_get_def dict_lookup_set_other)

lemma dict_set_nonempty: "dict_set d k v \<noteq> []"
  by (cases d) (auto split: if_splits)

section \<open>Properties of device entries\<close>

lemma length_config_super_setitem: "length (config (super_setitem i k v s)) = length (config s)"
  by (simp add: super_setitem_def)

lemma entry_items_super_setitem:
  "i < length (config s) \<Longrightarrow> entry_items (super_setitem i k v s) i = dict_set (entry_items s i) k v"
  by (simp add: super_setitem_def entry_items_def)

lemma super_setitem_out_of_range: "\<not> i < length (config s) \<Longrightarrow> super_setitem i k v s = s"
  by (simp add: super_setitem_def list_update_beyond)

lemma length_config_update_field: "length (config (update_field i k x s)) = length (config s)"
  by (simp add: update_field_def length_config_super_setitem)

lemma save_calls_update_field: "save_calls (update_field i k x s) = save_calls s"
  by (simp add: update_field_def super_setitem_def)

lemma update_field_get_same:
  "i < length (config s) \<Longrightarrow> truthy (pystr x) \<Longrightarrow>
     dict_get (entry_items (update_field i k x s) i) k = pystr x"
  by (simp add: update_field_def entry_items_super_setitem dict_get_set_same)

lemma update_field_get_other:
  "\<not> key_eq k k' \<Longrightarrow>
     dict_get (entry_items (update_field i k x s) i) k' = dict_get (entry_items s i) k'"
  by (cases "i < length (config s)")
     (simp_all add: update_field_def entry_items_super_setitem dict_get_set_other
        super_setitem_out_of_range)

lemma update_field_noop:
  "truthy (pystr x) \<longrightarrow> dict_get (entry_items s i) k = pystr x \<Longrightarrow> update_field i k x s = s"
  by (auto simp: update_field_def)

lemma update_field_out_of_range: "\<not> i < length (config s) \<Longrightarrow> update_field i k x s = s"
  by (simp add: update_field_def super_setitem_out_of_range)

lemma KEY_distinct:
  "\<not> key_eq KEY_WPID KEY_NAME" "\<not> key_eq KEY_SERIAL KEY_NAME" "\<not> key_eq KEY_MODEL_ID KEY_NAME"
  "\<not> key_eq KEY_UNIT_ID KEY_NAME" "\<not> key_eq KEY_SERIAL KEY_WPID" "\<not> key_eq KEY_MODEL_ID KEY_WPID"
  "\<not> key_eq KEY_UNIT_ID KEY_WPID" "\<not> key_eq KEY_MODEL_ID KEY_SERIAL"
  "\<not> key_eq KEY_UNIT_ID KEY_SERIAL" "\<not> key_eq KEY_UNIT_ID KEY_MODEL_ID"
  by (simp_all add: key_eq_def KEY_defs)

lemma update_get:
  assumes "i < length (config s)"
  shows "truthy (pystr name) \<Longrightarrow>
           dict_get (entry_items (update i name wpid serial modelId unitId s) i) KEY_NAME = pystr name"
    and "truthy (pystr wpid) \<Longrightarrow>
           dict_get (entry_items (update i name wpid serial modelId unitId s) i) KEY_WPID = pystr wpid"
    and "truthy (pystr serial) \<Longrightarrow>
           dict_get (entry_items (update i name wpid serial modelId unitId s) i) KEY_SERIAL = pystr serial"
    and "truthy (pystr modelId) \<Longrightarrow>
           dict_get (entry_items (update i name wpid serial modelId unitId s) i) KEY_MODEL_ID = pystr modelId"
    and "truthy (pystr unitId) \<Longrightarrow>
           dict_get (entry_items (update i name wpid serial modelId unitId s) i) KEY_UNIT_ID = pystr unitId"
  using assms
  by (simp_all add: update_def update_field_get_other KEY_distinct update_field_get_same
        length_config_update_field)

lemma save_calls_update: "save_calls (update i name wpid serial modelId unitId s) = save_calls s"
  by (simp add: update_def save_calls_update_field)

lemma length_config_update:
  "length (config (update i name wpid serial modelId unitId s)) = length (config s)"
  by (simp add: update_def length_config_update_field)

lemma update_idem:
  "update i name wpid serial modelId unitId (update i name wpid serial modelId unitId s)
     = update i name wpid serial modelId unitId s"
proof (cases "i < length (config s)")
  case False
  then show ?thesis
    by (simp add: update_def update_field_out_of_range)
next
  case True
  define s1 where "s1 = update i name wpid serial modelId unitId s"
  have n: "update_field i KEY_NAME name s1 = s1"
    by (rule update_field_noop) (simp add: s1_def update_get(1) [OF True])
  have w: "update_field i KEY_WPID wpid s1 = s1"
    by (rule update_field_noop) (simp add: s1_def update_get(2) [OF True])
  have r: "update_field i KEY_SERIAL serial s1 = s1"
    by (rule update_field_noop) (simp add: s1_def update_get(3) [OF True])
  have m: "update_field i KEY_MODEL_ID modelId s1 = s1"
    by (rule update_field_noop) (simp add: s1_def update_get(4) [OF True])
  have u: "update_field i KEY_UNIT_ID unitId s1 = s1"
    by (rule update_field_noop) (simp add: s1_def update_get(5) [OF True])
  have "update i name wpid serial modelId unitId s1 = s1"
    by (simp only: update_def n w r m u)
  then show ?thesis by (simp only: s1_def)
qed

section \<open>Properties of the persister\<close>

lemma match_spec_match: "match w s m u c = spec_match w s m u c"
  by (auto simp: match_def spec_match_def field_is_def pystr_def dict_get_def
      split: option.splits)

lemma match_nonempty: "match w s m u c \<Longrightarrow> c \<noteq> []"
  by (auto simp: match_def pystr_def dict_get_def split: option.splits)

lemma find_entry_offset:
  "find_entry w s m u cs n = map_option (\<lambda>i. i + n) (find_entry w s m u cs 0)"
proof (induction cs arbitrary: n)
  case Nil
  show ?case by simp
next
  case (Cons c cs)
  have "find_entry w s m u cs (Suc n) = map_option (\<lambda>i. i + Suc n) (find_entry w s m u cs 0)"
    by (rule Cons.IH)
  moreover have "find_entry w s m u cs (Suc 0) = map_option (\<lambda>i. i + Suc 0) (find_entry w s m u cs 0)"
    by (rule Cons.IH)
  ultimately show ?case by (simp add: option.map_comp comp_def)
qed

lemma find_entry_Some_iff:
  "(find_entry w s m u cs 0 = Some i) =
     (i < length cs \<and> is_DeviceEntry (cs ! i) \<and> match w s m u (items (cs ! i))
      \<and> (\<forall>j<i. \<not> (is_DeviceEntry (cs ! j) \<and> match w s m u (items (cs ! j)))))"
proof (induction cs arbitrary: i)
  case Nil
  show ?case by simp
next
  case (Cons c cs)
  show ?case
  proof (cases "is_DeviceEntry c \<and> match w s m u (items c)")
    case True
    then show ?thesis by (cases i) auto
  next
    case False
    have off: "find_entry w s m u cs (Suc 0) = map_option Suc (find_entry w s m u cs 0)"
      using find_entry_offset [of w s m u cs "Suc 0"] by simp
    show ?thesis
    proof (cases i)
      case 0
      with False off show ?thesis by auto
    next
      case (Suc i')
      with False off Cons.IH [of i'] show ?thesis
        by (auto simp: All_less_Suc2)
    qed
  qed
qed

lemma find_entry_None_iff:
  "(find_entry w s m u cs n = None) =
     (\<forall>c\<in>set cs. \<not> (is_DeviceEntry c \<and> match w s m u (items c)))"
  by (induction cs arbitrary: n) auto

lemma entry_items_config_update: "entry_items (s\<lparr>config := cfg\<rparr>) i = (if i < length cfg then items (cfg ! i) else [])"
  by (simp add: entry_items_def)

lemma persister_found:
  assumes "(if config s = [] then load e else Inr (config s)) = Inr cfg"
    and "find_entry (dev_wpid d) (dev_priv_serial d) (effective_modelId d) (effective_unitId d) cfg 0 = Some i"
  shows "persister e d s =
           Inr (Some i, update i (dev_name d) (dev_wpid d) (dev_serial d)
                          (effective_modelId d) (effective_unitId d) (s\<lparr>config := cfg\<rparr>))"
proof -
  from assms(2) have i: "i < length cfg"
    and m: "match (dev_wpid d) (dev_priv_serial d) (effective_modelId d) (effective_unitId d) (items (cfg ! i))"
    by (simp_all add: find_entry_Some_iff)
  from m have "items (cfg ! i) \<noteq> []" by (rule match_nonempty)
  with i have "entry_items (s\<lparr>config := cfg\<rparr>) i \<noteq> []"
    by (simp add: entry_items_config_update)
  with assms show ?thesis
    by (simp add: persister_def Let_def)
qed

lemma persister_not_found:
  assumes "(if config s = [] then load e else Inr (config s)) = Inr cfg"
    and "find_entry (dev_wpid d) (dev_priv_serial d) (effective_modelId d) (effective_unitId d) cfg 0 = None"
  shows "persister e d s =
           (if \<not> dev_online d then Inr (None, s\<lparr>config := cfg\<rparr>)
            else Inr (Some (length cfg),
                      update (length cfg) (dev_name d) (dev_wpid d) (dev_serial d)
                        (effective_modelId d) (effective_unitId d)
                        (s\<lparr>config := cfg @ [VEntry []]\<rparr>)))"
  using assms by (simp add: persister_def Let_def)

lemma persister_Some:
  assumes "persister e d s = Inr (Some i, s')"
  shows "\<exists>s1. i < length (config s1) \<and>
           s' = update i (dev_name d) (dev_wpid d) (dev_serial d)
                  (effective_modelId d) (effective_unitId d) s1"
proof (cases "if config s = [] then load e else Inr (config s)")
  case (Inl err)
  with assms show ?thesis by (simp add: persister_def)
next
  case (Inr cfg)
  show ?thesis
  proof (cases "find_entry (dev_wpid d) (dev_priv_serial d) (effective_modelId d) (effective_unitId d) cfg 0")
    case None
    from assms persister_not_found [OF Inr None]
    have "i = length cfg" and "s' = update (length cfg) (dev_name d) (dev_wpid d) (dev_serial d)
                        (effective_modelId d) (effective_unitId d)
                        (s\<lparr>config := cfg @ [VEntry []]\<rparr>)"
      by (auto split: if_splits)
    then show ?thesis
      by (intro exI [of _ "s\<lparr>config := cfg @ [VEntry []]\<rparr>"]) simp
  next
    case (Some j)
    from assms persister_found [OF Inr Some]
    have "i = j" and "s' = update j (dev_name d) (dev_wpid d) (dev_serial d)
                          (effective_modelId d) (effective_unitId d) (s\<lparr>config := cfg\<rparr>)"
      by auto
    moreover from Some have "j < length cfg" by (simp add: find_entry_Some_iff)
    ultimately show ?thesis
      by (intro exI [of _ "s\<lparr>config := cfg\<rparr>"]) simp
  qed
qed

lemma effective_zero:
  "dev_modelId d = Some zero_id \<Longrightarrow> effective_modelId d = dev_priv_name d"
  "dev_modelId d = Some zero_id \<Longrightarrow>
     effective_unitId d = (if truthy (pystr (dev_unitId d)) then dev_priv_serial d else None)"
  by (simp_all add: effective_modelId_def effective_unitId_def zero_id_def pystr_def)

text \<open>
  \<^verbatim>\<open>persister\<close> on the keyboard with zero identifiers: no record matches, the device is
  online, a new record is appended and updated.
\<close>

lemma persister_zero_keyboard:
  "persister example_env zero_keyboard example_state = Inr (Some 3, zero_keyboard_stored)"
  by (simp add: persister_def example_env_def zero_keyboard_def example_state_def Let_def
      effective_modelId_def effective_unitId_def zero_id_def pystr_def match_def
      record_A_def record_B_def KEY_defs dict_get_def key_eq_def entry_items_def
      update_def update_field_def super_setitem_def zero_keyboard_stored_def numeral_3_eq_3)

text \<open>
  C2, as amended. For a device whose \<^verbatim>\<open>modelId\<close> is the all-zero value, the substituted name
  and serial are not for the comparison only: \<^verbatim>\<open>persister\<close> hands them to \<^verbatim>\<open>update\<close>, so
  the record it returns holds the name of the device under \<^verbatim>\<open>_modelId\<close> when the name is not
  empty, and the serial under \<^verbatim>\<open>_unitId\<close> when \<^verbatim>\<open>unitId\<close> and the serial are not empty.
\<close>

theorem persister_zero_modelId_stores_name:
  assumes "dev_modelId d = Some zero_id" and "persister e d s = Inr (Some i, s')"
  shows "(truthy (pystr (dev_priv_name d)) \<longrightarrow>
            dict_get (entry_items s' i) KEY_MODEL_ID = pystr (dev_priv_name d))
       \<and> (truthy (pystr (dev_unitId d)) \<and> truthy (pystr (dev_priv_serial d)) \<longrightarrow>
            dict_get (entry_items s' i) KEY_UNIT_ID = pystr (dev_priv_serial d))"
proof -
  from persister_Some [OF assms(2)] obtain s1 where i: "i < length (config s1)"
    and s': "s' = update i (dev_name d) (dev_wpid d) (dev_serial d)
                  (effective_modelId d) (effective_unitId d) s1"
    by blast
  show ?thesis
    unfolding s' using update_get(4,5) [OF i]
    by (simp add: effective_zero [OF assms(1)])
qed

text \<open>
  The claim as it stands fails on the keyboard of the example: its \<^verbatim>\<open>modelId\<close> is all zeros,
  and the record that \<^verbatim>\<open>persister\<close> returns holds the name under \<^verbatim>\<open>_modelId\<close> and the serial
  under \<^verbatim>\<open>_unitId\<close>, not the identifiers that the hardware reports.
\<close>

theorem persister_zero_modelId_counterexample:
  "dev_modelId zero_keyboard = Some zero_id
   \<and> persister example_env zero_keyboard example_state = Inr (Some 3, zero_keyboard_stored)
   \<and> dict_get (entry_items zero_keyboard_stored 3) KEY_MODEL_ID = VStr ''Keyboard K1''
   \<and> dict_get (entry_items zero_keyboard_stored 3) KEY_MODEL_ID = pystr (dev_priv_name zero_keyboard)
   \<and> dict_get (entry_items zero_keyboard_stored 3) KEY_MODEL_ID \<noteq> pystr (dev_modelId zero_keyboard)
   \<and> dict_get (entry_items zero_keyboard_stored 3) KEY_UNIT_ID = pystr (dev_priv_serial zero_keyboard)
   \<and> dict_get (entry_items zero_keyboard_stored 3) KEY_UNIT_ID \<noteq> pystr (dev_unitId zero_keyboard)"
  by (simp add: persister_zero_keyboard)
     (simp add: zero_keyboard_def zero_id_def zero_keyboard_stored_def entry_items_def pystr_def
        dict_get_def KEY_defs key_eq_def)

text \<open>
  The amended statement on the same keyboard.
\<close>

theorem persister_zero_witness:
  "dev_modelId zero_keyboard = Some zero_id
   \<and> persister example_env zero_keyboard example_state = Inr (Some 3, zero_keyboard_stored)
   \<and> truthy (pystr (dev_priv_name zero_keyboard))
   \<and> dict_get (entry_items zero_keyboard_stored 3) KEY_MODEL_ID = pystr (dev_priv_name zero_keyboard)
   \<and> truthy (pystr (dev_unitId zero_keyboard)) \<and> truthy (pystr (dev_priv_serial zero_keyboard))
   \<and> dict_get (entry_items zero_keyboard_stored 3) KEY_UNIT_ID = pystr (dev_priv_serial zero_keyboard)"
proof -
  have z: "dev_modelId zero_keyboard = Some zero_id"
    by (simp add: zero_keyboard_def zero_id_def)
  have t: "truthy (pystr (dev_priv_name zero_keyboard))"
    "truthy (pystr (dev_unitId zero_keyboard))" "truthy (pystr (dev_priv_serial zero_keyboard))"
    by (simp_all add: zero_keyboard_def pystr_def)
  from persister_zero_modelId_stores_name [OF z persister_zero_keyboard] z t persister_zero_keyboard
  show ?thesis by simp
qed

text \<open>
  The claim as it stands fails in both directions: a \<^verbatim>\<open>unitId\<close> of all zeros is kept when the
  \<^verbatim>\<open>modelId\<close> is a real one, and a \<^verbatim>\<open>unitId\<close> that is not all zeros is replaced by the serial
  when the \<^verbatim>\<open>modelId\<close> is all zeros.
\<close>

theorem effective_ids_counterexample:
  "dev_unitId zero_unit_device = Some zero_id
   \<and> effective_unitId zero_unit_device \<noteq> dev_priv_serial zero_unit_device
   \<and> dev_unitId zero_keyboard \<noteq> Some zero_id
   \<and> effective_unitId zero_keyboard = dev_priv_serial zero_keyboard
   \<and> effective_unitId zero_keyboard \<noteq> dev_unitId zero_keyboard"
  by (simp add: zero_unit_device_def zero_keyboard_def effective_unitId_def zero_id_def pystr_def)

text \<open>
  C5, as amended. Both replacements hang on the \<^verbatim>\<open>modelId\<close> alone: when it is the all-zero
  value the \<^verbatim>\<open>modelId\<close> is replaced by the name, and the \<^verbatim>\<open>unitId\<close> by the serial if the
  \<^verbatim>\<open>unitId\<close> is not empty and by \<^verbatim>\<open>None\<close> if it is; otherwise both are taken as they are.
  The \<^verbatim>\<open>unitId\<close> is never compared with the all-zero value.
\<close>

theorem effective_ids_gated_on_modelId:
  "effective_modelId d = (if dev_modelId d = Some zero_id then dev_priv_name d else dev_modelId d)
   \<and> effective_unitId d =
       (if dev_modelId d = Some zero_id
        then (if truthy (pystr (dev_unitId d)) then dev_priv_serial d else None)
        else dev_unitId d)"
  by (simp add: effective_modelId_def effective_unitId_def zero_id_def pystr_def)

text \<open>
  Where the lazy load returns, \<^verbatim>\<open>persister\<close> does what is asked of it for a device that is
  not online and that no stored record matches: it returns \<^verbatim>\<open>None\<close> and the document is the
  loaded document as it was, nothing appended and no record changed. A document that was
  loaded before is untouched, and so is the rest of the state.
\<close>

lemma persister_offline_unseen:
  assumes "\<not> dev_online d"
    and "(if config s = [] then load e else Inr (config s)) = Inr cfg"
    and "\<forall>c\<in>set cfg. \<not> (is_DeviceEntry c
            \<and> spec_match (dev_wpid d) (dev_priv_serial d) (effective_modelId d) (effective_unitId d) (items c))"
  shows "persister e d s = Inr (None, s\<lparr>config := cfg\<rparr>)
       \<and> (config s \<noteq> [] \<longrightarrow> persister e d s = Inr (None, s))"
proof -
  from assms(3) have "find_entry (dev_wpid d) (dev_priv_serial d) (effective_modelId d) (effective_unitId d) cfg 0 = None"
    by (simp add: find_entry_None_iff match_spec_match)
  from persister_not_found [OF assms(2) this] assms(1)
  have p: "persister e d s = Inr (None, s\<lparr>config := cfg\<rparr>)" by simp
  moreover have "config s \<noteq> [] \<longrightarrow> s\<lparr>config := cfg\<rparr> = s"
    using assms(2) by auto
  ultimately show ?thesis by simp
qed

text \<open>
  An off-line device that no record of the example state matches.
\<close>

lemma persister_offline_unseen_example:
  "\<not> dev_online offline_device
   \<and> config example_state \<noteq> []
   \<and> persister example_env offline_device example_state = Inr (None, example_state)"
proof -
  have a: "\<not> dev_online offline_device" by (simp add: offline_device_def)
  have b: "(if config example_state = [] then load example_env else Inr (config example_state))
            = Inr (config example_state)"
    by (simp add: example_state_def)
  have c: "\<forall>c\<in>set (config example_state). \<not> (is_DeviceEntry c
            \<and> spec_match (dev_wpid offline_device) (dev_priv_serial offline_device)
                 (effective_modelId offline_device) (effective_unitId offline_device) (items c))"
    by (simp add: example_state_def offline_device_def spec_match_def field_is_def
        effective_modelId_def effective_unitId_def record_A_def record_B_def KEY_defs key_eq_def)
  have d: "config example_state \<noteq> []" by (simp add: example_state_def)
  from persister_offline_unseen [OF a b c] a d show ?thesis by simp
qed

text \<open>
  C6. \<^verbatim>\<open>persister\<close> does not return \<^verbatim>\<open>None\<close> for every device that is not online and matches
  no stored record. With nothing loaded yet, \<^verbatim>\<open>config.yaml\<close> absent and a \<^verbatim>\<open>config.json\<close>
  that cannot be read, \<^verbatim>\<open>_load\<close> logs the failure, goes on with the empty list and hands it
  to \<^verbatim>\<open>_convert_json\<close> outside the \<^verbatim>\<open>try\<close>: the list has no \<^verbatim>\<open>get\<close>, and the exception leaves
  \<^verbatim>\<open>persister\<close>. The branch for \<^verbatim>\<open>config.yaml\<close> goes on with the empty list too and does
  return \<^verbatim>\<open>None\<close>, with the document holding the version alone.
\<close>

theorem persister_raises_on_unreadable_legacy_file:
  "\<not> dev_online offline_device
   \<and> config unloaded_state = []
   \<and> persister unreadable_json_env offline_device unloaded_state = Inl AttributeError
   \<and> persister unreadable_yaml_env offline_device unloaded_state
       = Inr (None, unloaded_state\<lparr>config := [VStr ''1.0'']\<rparr>)"
  by (simp add: persister_def load_def convert_json_def parse_config_def parse_body_def
      unreadable_json_env_def unreadable_yaml_env_def unloaded_state_def offline_device_def
      Let_def)

lemma save_calls_do_save: "save_calls (do_save wr_ok s) = save_calls s"
  by (simp add: do_save_def Let_def split: option.splits)

lemma save_calls_save: "save_calls (save defer dir_ok wr_ok s) = Suc (save_calls s)"
  by (simp add: save_def Let_def save_calls_do_save split: option.splits)

lemma save_calls_setitem: "save_calls (setitem i k v dir_ok wr_ok s) = Suc (save_calls s)"
  by (simp add: setitem_def save_calls_save super_setitem_def)

text \<open>
  C3, as amended. \<^verbatim>\<open>update\<close> assigns through \<^verbatim>\<open>super().__setitem__\<close>, which does not call
  \<^verbatim>\<open>save\<close>: two calls in succession with the same non-empty values request no save at all.
  The first call makes the five fields equal to the values, the second call changes
  nothing. An assignment through \<^verbatim>\<open>__setitem__\<close> of the entry does request one save.
\<close>

theorem update_twice_requests_no_save:
  assumes "i < length (config s)"
    and "truthy (pystr name)" and "truthy (pystr wpid)" and "truthy (pystr serial)"
    and "truthy (pystr modelId)" and "truthy (pystr unitId)"
  shows "save_calls (update i name wpid serial modelId unitId
                       (update i name wpid serial modelId unitId s)) = save_calls s
       \<and> update i name wpid serial modelId unitId (update i name wpid serial modelId unitId s)
           = update i name wpid serial modelId unitId s
       \<and> dict_get (entry_items (update i name wpid serial modelId unitId s) i) KEY_NAME = pystr name
       \<and> dict_get (entry_items (update i name wpid serial modelId unitId s) i) KEY_WPID = pystr wpid
       \<and> dict_get (entry_items (update i name wpid serial modelId unitId s) i) KEY_SERIAL = pystr serial
       \<and> dict_get (entry_items (update i name wpid serial modelId unitId s) i) KEY_MODEL_ID = pystr modelId
       \<and> dict_get (entry_items (update i name wpid serial modelId unitId s) i) KEY_UNIT_ID = pystr unitId
       \<and> save_calls (setitem i k v dir_ok wr_ok s) = Suc (save_calls s)"
  using assms
  by (simp add: update_idem save_calls_update update_get save_calls_setitem)

lemma update_example:
  "update 1 (Some ''A2'') (Some ''4051'') (Some ''S1'') (Some ''M1'') (Some ''U1'') example_state
    = example_updated"
  by (simp add: update_def update_field_def super_setitem_def example_state_def entry_items_def
      pystr_def dict_get_def KEY_defs key_eq_def record_A_def example_updated_def)

text \<open>
  The claim as it stands fails on the example state: the first call changes record 1, and
  after the second call the number of save requests is still zero, not one.
\<close>

theorem update_twice_counterexample:
  "update 1 (Some ''A2'') (Some ''4051'') (Some ''S1'') (Some ''M1'') (Some ''U1'') example_state
     \<noteq> example_state
   \<and> save_calls example_state = 0
   \<and> save_calls (update 1 (Some ''A2'') (Some ''4051'') (Some ''S1'') (Some ''M1'') (Some ''U1'')
        (update 1 (Some ''A2'') (Some ''4051'') (Some ''S1'') (Some ''M1'') (Some ''U1'')
           example_state)) = 0"
proof -
  have twice: "update 1 (Some ''A2'') (Some ''4051'') (Some ''S1'') (Some ''M1'') (Some ''U1'')
      example_updated = example_updated"
    using update_idem [of 1 "Some ''A2''" "Some ''4051''" "Some ''S1''" "Some ''M1''"
        "Some ''U1''" example_state]
    unfolding update_example .
  have "example_updated \<noteq> example_state"
    by (simp add: example_updated_def example_state_def record_A_def)
  moreover have "save_calls example_state = 0" "save_calls example_updated = 0"
    by (simp_all add: example_updated_def example_state_def)
  ultimately show ?thesis
    unfolding update_example twice by blast
qed

text \<open>
  The amended statement on the same record.
\<close>

theorem update_twice_witness:
  "1 < length (config example_state)
   \<and> save_calls (update 1 (Some ''A2'') (Some ''4051'') (Some ''S1'') (Some ''M1'') (Some ''U1'')
        (update 1 (Some ''A2'') (Some ''4051'') (Some ''S1'') (Some ''M1'') (Some ''U1'')
           example_state)) = save_calls example_state
   \<and> dict_get (entry_items
        (update 1 (Some ''A2'') (Some ''4051'') (Some ''S1'') (Some ''M1'') (Some ''U1'')
           example_state) 1) KEY_NAME = pystr (Some ''A2'')
   \<and> save_calls (setitem 1 KEY_NAME (VStr ''A2'') True True example_state)
       = Suc (save_calls example_state)"
proof -
  have i: "1 < length (config example_state)" by (simp add: example_state_def)
  have t: "truthy (pystr (Some ''A2''))" "truthy (pystr (Some ''4051''))"
    "truthy (pystr (Some ''S1''))" "truthy (pystr (Some ''M1''))" "truthy (pystr (Some ''U1''))"
    by (simp_all add: pystr_def)
  from update_twice_requests_no_save [OF i t, of KEY_NAME "VStr ''A2''" True True] i
  show ?thesis by blast
qed



section \<open>Properties of the write scheduler\<close>

lemma one_timer_cases:
  "one_timer s = (timers s = [] \<or> (\<exists>t. timers s = [t] \<and> save_timer s = Some t))"
  by (auto simp: one_timer_def split: list.splits)

lemma do_save_clears:
  assumes "one_timer s"
  shows "timers (do_save wr_ok s) = [] \<and> save_timer (do_save wr_ok s) = None"
  using assms by (auto simp: one_timer_cases do_save_def Let_def split: option.splits)

lemma one_timer_do_save: "one_timer s \<Longrightarrow> one_timer (do_save wr_ok s)"
  using do_save_clears [of s wr_ok] by (simp add: one_timer_def)

lemma one_timer_save: "one_timer s \<Longrightarrow> one_timer (save defer dir_ok wr_ok s)"
proof -
  assume inv: "one_timer s"
  then have inv': "one_timer (s\<lparr>save_calls := Suc (save_calls s)\<rparr>)"
    by (simp add: one_timer_cases)
  from inv have none: "save_timer s = None \<Longrightarrow> timers s = []"
    by (auto simp: one_timer_cases)
  show ?thesis
    using inv' one_timer_do_save [OF inv', of wr_ok] none
    by (auto simp: save_def Let_def one_timer_def split: option.splits)
qed

lemma one_timer_timer_expires: "one_timer s \<Longrightarrow> one_timer (timer_expires t s)"
  by (auto simp: one_timer_cases timer_expires_def split: if_splits)

lemma one_timer_timer_fires: "one_timer s \<Longrightarrow> one_timer (timer_fires t wr_ok s)"
proof -
  assume inv: "one_timer s"
  show ?thesis
  proof (cases "t \<in> set (timers s)")
    case False
    with inv show ?thesis by (simp add: timer_fires_def)
  next
    case True
    from one_timer_do_save [OF one_timer_timer_expires [OF inv]] True show ?thesis
      by (simp add: timer_fires_def)
  qed
qed

lemma one_timer_step: "one_timer s \<Longrightarrow> one_timer (step s ev)"
  by (cases ev)
     (simp_all add: one_timer_save one_timer_do_save one_timer_timer_fires
        one_timer_timer_expires)

lemma one_timer_run: "one_timer s \<Longrightarrow> one_timer (run s evs)"
  unfolding run_def by (induction evs arbitrary: s) (simp_all add: one_timer_step)

lemma save_absorbed:
  assumes "defer_saves s" and "save_timer s = Some t"
  shows "save True dir_ok wr_ok s = s\<lparr>save_calls := Suc (save_calls s)\<rparr>"
  using assms by (simp add: save_def Let_def)

text \<open>
  C7. From a state with at most one pending timer, every sequence of \<^verbatim>\<open>save\<close> calls,
  \<^verbatim>\<open>do_save\<close> calls and timer expiries leaves at most one timer pending. A deferred
  \<^verbatim>\<open>save\<close> while a timer is pending changes nothing but the count of the requests, and
  \<^verbatim>\<open>do_save\<close> leaves no timer pending and no timer referred to.
\<close>

theorem at_most_one_timer:
  assumes "one_timer s"
  shows "one_timer (run s evs)
       \<and> length (timers (run s evs)) \<le> 1
       \<and> (defer_saves s \<and> save_timer s \<noteq> None \<longrightarrow>
            save True dir_ok wr_ok s = s\<lparr>save_calls := Suc (save_calls s)\<rparr>)
       \<and> timers (do_save wr_ok s) = [] \<and> save_timer (do_save wr_ok s) = None"
proof -
  have r: "one_timer (run s evs)" using assms by (rule one_timer_run)
  then have l: "length (timers (run s evs)) \<le> 1"
    by (auto simp: one_timer_cases)
  have a: "defer_saves s \<and> save_timer s \<noteq> None \<longrightarrow>
            save True dir_ok wr_ok s = s\<lparr>save_calls := Suc (save_calls s)\<rparr>"
    using save_absorbed [of s] by auto
  from r l a do_save_clears [OF assms, of wr_ok] show ?thesis by (intro conjI) simp_all
qed

text \<open>
  From the state with one pending timer, a burst of deferred and immediate requests,
  expiries and writes ends with one pending timer, the fourth one started.
\<close>

theorem at_most_one_timer_witness:
  "one_timer pending_state
   \<and> defer_saves pending_state \<and> save_timer pending_state \<noteq> None
   \<and> one_timer (run pending_state burst)
   \<and> timers (run pending_state burst) = [3]
   \<and> save True True True pending_state = pending_state\<lparr>save_calls := 2\<rparr>
   \<and> timers (do_save True pending_state) = []
   \<and> save_timer (do_save True pending_state) = None"
proof -
  have inv: "one_timer pending_state"
    by (simp add: one_timer_def pending_state_def)
  have pend: "defer_saves pending_state \<and> save_timer pending_state \<noteq> None"
    by (simp add: pending_state_def example_state_def)
  have calls: "Suc (save_calls pending_state) = 2"
    by (simp add: pending_state_def)
  have after: "timers (run pending_state burst) = [3]"
    by (simp add: run_def burst_def pending_state_def example_state_def save_def do_save_def
        timer_fires_def timer_expires_def Let_def)
  from at_most_one_timer [OF inv, of burst True True] pend calls after inv
  show ?thesis by simp
qed

section \<open>Properties of the legacy converter\<close>

lemma convert_loop_step:
  "convert_loop acc ((key, dev) # rest) =
     (if \<not> is_str key then Inl AttributeError
      else if is_device_key key then
        (case converted (key, dev) of
           Inl e \<Rightarrow> Inl e
         | Inr dev' \<Rightarrow> convert_loop (acc @ [dev']) rest)
      else convert_loop acc rest)"
  by (cases key) (simp_all add: is_device_key_def key_parts_def converted_def Let_def)

lemma convert_loop_Inr_iff:
  "(convert_loop acc kvs = Inr out) =
     (list_all (\<lambda>kv. is_str (fst kv)) kvs
      \<and> (\<exists>outs. out = acc @ outs
            \<and> map Inr outs = map converted (filter (\<lambda>kv. is_device_key (fst kv)) kvs)))"
proof (induction kvs arbitrary: acc)
  case Nil
  show ?case by auto
next
  case (Cons kv kvs)
  obtain key dev where kv: "kv = (key, dev)" by (cases kv)
  show ?case
  proof (cases "is_str key")
    case False
    then show ?thesis by (simp add: kv convert_loop_step del: convert_loop.simps)
  next
    case str: True
    show ?thesis
    proof (cases "is_device_key key")
      case False
      with str Cons.IH [of acc] show ?thesis by (simp add: kv convert_loop_step del: convert_loop.simps)
    next
      case dk: True
      show ?thesis
      proof (cases "converted (key, dev)")
        case (Inl e)
        have "convert_loop acc (kv # kvs) = Inl e"
          using str dk Inl by (simp add: kv convert_loop_step del: convert_loop.simps)
        moreover have "map converted (filter (\<lambda>kv. is_device_key (fst kv)) (kv # kvs))
              = Inl e # map converted (filter (\<lambda>kv. is_device_key (fst kv)) kvs)"
          using dk Inl by (simp add: kv)
        moreover have "map Inr outs \<noteq> Inl e # rest" for outs :: "pyval list" and rest
          by (cases outs) simp_all
        ultimately show ?thesis by simp
      next
        case (Inr dev')
        have "(convert_loop acc (kv # kvs) = Inr out) = (convert_loop (acc @ [dev']) kvs = Inr out)"
          using str dk Inr by (simp add: kv convert_loop_step del: convert_loop.simps)
        also have "\<dots> = (list_all (\<lambda>kv. is_str (fst kv)) kvs
            \<and> (\<exists>outs. out = (acc @ [dev']) @ outs
                \<and> map Inr outs = map converted (filter (\<lambda>kv. is_device_key (fst kv)) kvs)))"
          by (rule Cons.IH)
        also have "\<dots> = (list_all (\<lambda>kv. is_str (fst kv)) (kv # kvs)
            \<and> (\<exists>outs. out = acc @ outs
                \<and> map Inr outs = map converted (filter (\<lambda>kv. is_device_key (fst kv)) (kv # kvs))))"
        proof -
          have "(\<exists>outs. out = (acc @ [dev']) @ outs
                  \<and> map Inr outs = map converted (filter (\<lambda>kv. is_device_key (fst kv)) kvs))
              = (\<exists>outs. out = acc @ outs
                  \<and> map Inr outs = Inr dev' # map converted (filter (\<lambda>kv. is_device_key (fst kv)) kvs))"
            (is "?L = ?R")
          proof
            assume ?L
            then obtain outs where "out = (acc @ [dev']) @ outs"
              and "map Inr outs = map converted (filter (\<lambda>kv. is_device_key (fst kv)) kvs)"
              by (elim exE conjE)
            then have "out = acc @ (dev' # outs) \<and> map Inr (dev' # outs)
                = Inr dev' # map converted (filter (\<lambda>kv. is_device_key (fst kv)) kvs)"
              by simp
            then show ?R by (rule exI [where x = "dev' # outs"])
          next
            assume ?R
            then obtain outs where o: "out = acc @ outs"
              and m: "map Inr outs = Inr dev' # map converted (filter (\<lambda>kv. is_device_key (fst kv)) kvs)"
              by (elim exE conjE)
            from m obtain outs' where "outs = dev' # outs'"
              and "map Inr outs' = map converted (filter (\<lambda>kv. is_device_key (fst kv)) kvs)"
              by (cases outs) auto
            with o have "out = (acc @ [dev']) @ outs' \<and> map Inr outs'
                = map converted (filter (\<lambda>kv. is_device_key (fst kv)) kvs)"
              by simp
            then show ?L by (rule exI [where x = outs'])
          qed
          moreover have "map converted (filter (\<lambda>kv. is_device_key (fst kv)) (kv # kvs))
              = Inr dev' # map converted (filter (\<lambda>kv. is_device_key (fst kv)) kvs)"
            using dk Inr by (simp add: kv)
          moreover have "list_all (\<lambda>kv. is_str (fst kv)) (kv # kvs)
              = list_all (\<lambda>kv. is_str (fst kv)) kvs"
            using str by (simp add: kv)
          ultimately show ?thesis by (simp only:)
        qed
        finally show ?thesis .
      qed
    qed
  qed
qed

text \<open>
  C10. For a legacy document (a dictionary whose keys are strings) the converter returns
  exactly when every entry under a key of two parts converts, and what it returns is the
  value of \<^verbatim>\<open>_version\<close> (\<^verbatim>\<open>None\<close> when the key is missing) followed by the converted entries of
  the keys of two parts, in their order. Entries under other keys are left out.
\<close>

theorem convert_json_entries:
  assumes "list_all (\<lambda>kv. is_str (fst kv)) kvs"
  shows "(convert_json (VDict kvs) = Inr out) =
           (\<exists>outs. out = (case dict_lookup kvs KEY_VERSION of None \<Rightarrow> VNone | Some v \<Rightarrow> v) # outs
              \<and> map Inr outs = map converted (filter (\<lambda>kv. is_device_key (fst kv)) kvs))"
  using assms by (simp add: convert_json_def convert_loop_Inr_iff dict_get_def)

text \<open>
  Of the four keys of the example only \<^verbatim>\<open>AABB:12345\<close> splits into two parts; its entry is
  the only one in the result.
\<close>

theorem convert_json_entries_witness:
  "list_all (\<lambda>kv. is_str (fst kv)) legacy_odd_keys
   \<and> convert_json (VDict legacy_odd_keys) =
       Inr [VStr ''0.9'',
            VDict [(VStr ''_wpid'', VStr ''AABB''), (VStr ''_serial'', VStr ''12345''),
                   (VStr ''_NAME'', VStr ''Mouse'')]]
   \<and> map converted (filter (\<lambda>kv. is_device_key (fst kv)) legacy_odd_keys) =
       [Inr (VDict [(VStr ''_wpid'', VStr ''AABB''), (VStr ''_serial'', VStr ''12345''),
                    (VStr ''_NAME'', VStr ''Mouse'')])]"
proof -
  have keys: "list_all (\<lambda>kv. is_str (fst kv)) legacy_odd_keys"
    by (simp add: legacy_odd_keys_def)
  have run: "convert_json (VDict legacy_odd_keys) =
       Inr [VStr ''0.9'',
            VDict [(VStr ''_wpid'', VStr ''AABB''), (VStr ''_serial'', VStr ''12345''),
                   (VStr ''_NAME'', VStr ''Mouse'')]]"
    by (simp add: legacy_odd_keys_def convert_json_def KEY_defs convert_device_def dict_get_def
        key_eq_def drop_boolean_def rename_name_def dict_has_def Let_def)
  from convert_json_entries [OF keys] run
  obtain outs where o: "[VStr ''0.9'',
            VDict [(VStr ''_wpid'', VStr ''AABB''), (VStr ''_serial'', VStr ''12345''),
                   (VStr ''_NAME'', VStr ''Mouse'')]]
        = (case dict_lookup legacy_odd_keys KEY_VERSION of None \<Rightarrow> VNone | Some v \<Rightarrow> v) # outs"
    and m: "map Inr outs = map converted (filter (\<lambda>kv. is_device_key (fst kv)) legacy_odd_keys)"
    by blast
  from o have "outs = [VDict [(VStr ''_wpid'', VStr ''AABB''), (VStr ''_serial'', VStr ''12345''),
                   (VStr ''_NAME'', VStr ''Mouse'')]]"
    by simp
  with m keys run show ?thesis by simp
qed

text \<open>
  C8. The legacy document of the example converts to the version and one record with
  \<^verbatim>\<open>_wpid\<close>, \<^verbatim>\<open>_serial\<close> and \<^verbatim>\<open>_NAME\<close>; the boolean \<^verbatim>\<open>mouse-gestures\<close> is gone. The record
  equals the one the specification writes, whose keys stand in another order.
\<close>

theorem convert_json_example:
  "convert_json legacy_example =
     Inr [VStr ''0.9'',
          VDict [(VStr ''_wpid'', VStr ''AABB''), (VStr ''_serial'', VStr ''12345''),
                 (VStr ''_NAME'', VStr ''Mouse'')]]
   \<and> dict_equal
        [(VStr ''_wpid'', VStr ''AABB''), (VStr ''_serial'', VStr ''12345''),
         (VStr ''_NAME'', VStr ''Mouse'')]
        [(VStr ''_NAME'', VStr ''Mouse''), (VStr ''_wpid'', VStr ''AABB''),
         (VStr ''_serial'', VStr ''12345'')]"
  by (simp add: legacy_example_def convert_json_def KEY_defs convert_device_def dict_get_def
      key_eq_def drop_boolean_def rename_name_def dict_has_def Let_def dict_equal_def)

end
